theory Spec2Isabelle
  imports Complex_Main "HOL-Library.Multiset" "HOL-Library.Sublist" "HOL-Library.Monad_Syntax"
begin

section \<open>Data model of houingData.py\<close>

text \<open>
  The class \<open>Property\<close>. The constructor stores \<open>float(latestPrice)\<close>,
  \<open>int(numOfBedrooms)\<close> and \<open>datetime.strptime(latest_saleyear, '%Y')\<close>; the only
  part of the date that is read again is \<open>.year\<close>, so the field holds the year.
  Prices are finite floats, which are rational numbers: the comparisons of the
  source are exact on them, so \<open>rat\<close> carries the order faithfully. The additions
  and the division of the aggregations round to the nearest float, as modelled in
  the section on floating-point arithmetic.
  The field \<open>id\<close> of the source is named \<open>id_prop\<close>, since \<open>id\<close> is the identity
  function of HOL.
\<close>

record Property =
  id_prop :: string
  latestPrice :: rat
  numOfBedrooms :: int
  city :: string
  latest_saleyear :: int

text \<open>The constructor, on the values already converted.\<close>

definition Property_init :: "string \<Rightarrow> rat \<Rightarrow> int \<Rightarrow> string \<Rightarrow> int \<Rightarrow> Property" where
  "Property_init i price bedrooms c year =
     \<lparr>id_prop = i, latestPrice = price, numOfBedrooms = bedrooms, city = c,
      latest_saleyear = year\<rparr>"

text \<open>
  The class \<open>BSTNode\<close>: a node holds one property and two links, each \<open>None\<close> or
  a node. \<open>NoneNode\<close> stands for the link \<open>None\<close>; \<open>BSTNode p l r\<close> is the node with
  \<open>property = p\<close>, \<open>left = l\<close>, \<open>right = r\<close>.
\<close>

datatype BSTNode = NoneNode | BSTNode Property BSTNode BSTNode

text \<open>The class \<open>RealEstateAnalyzer\<close> and its constructor.\<close>

record RealEstateAnalyzer =
  properties :: "Property list"
  price_bst_root :: BSTNode

definition RealEstateAnalyzer_init :: RealEstateAnalyzer where
  "RealEstateAnalyzer_init = \<lparr>properties = [], price_bst_root = NoneNode\<rparr>"

text \<open>
  \<open>load_data\<close> appends one property per row of the file to \<open>self.properties\<close>. Reading
  and parsing the file is outside the model: the rows arrive as properties.
\<close>

definition load_data :: "RealEstateAnalyzer \<Rightarrow> Property list \<Rightarrow> RealEstateAnalyzer" where
  "load_data self rows = self\<lparr>properties := properties self @ rows\<rparr>"

section \<open>The price tree\<close>

text \<open>
  \<open>insert_bst(node, property)\<close> returns the root of the subtree after the insertion;
  the caller stores it back into the link it came from. No node is shared between two
  links, so the tree after the assignment is the tree rebuilt along the path. The
  functions of this section are total: they describe the calls of the source that
  stay within the recursion limit of the interpreter.
\<close>

fun insert_bst :: "BSTNode \<Rightarrow> Property \<Rightarrow> BSTNode" where
  "insert_bst NoneNode property = BSTNode property NoneNode NoneNode"
| "insert_bst (BSTNode p l r) property =
     (if latestPrice property < latestPrice p
      then BSTNode p (insert_bst l property) r
      else BSTNode p l (insert_bst r property))"

text \<open>
  \<open>build_price_bst\<close> resets the root to \<open>None\<close> and inserts every element of
  \<open>self.properties\<close> in list order.
\<close>

definition build_price_bst :: "RealEstateAnalyzer \<Rightarrow> RealEstateAnalyzer" where
  "build_price_bst self =
     self\<lparr>price_bst_root := foldl insert_bst NoneNode (properties self)\<rparr>"

text \<open>
  \<open>search_by_price_range(root, min_price, max_price, results)\<close> appends to the list
  \<open>results\<close> and returns nothing; the model returns the list after the call. The
  three \<open>if\<close> statements run in the order of the source: the node itself, then the
  left subtree, then the right subtree.
\<close>

fun search_by_price_range :: "BSTNode \<Rightarrow> rat \<Rightarrow> rat \<Rightarrow> Property list \<Rightarrow> Property list" where
  "search_by_price_range NoneNode min_price max_price results = results"
| "search_by_price_range (BSTNode p l r) min_price max_price results =
     (let results1 = (if min_price \<le> latestPrice p \<and> latestPrice p \<le> max_price
                      then results @ [p] else results);
          results2 = (if min_price < latestPrice p
                      then search_by_price_range l min_price max_price results1
                      else results1)
      in (if max_price > latestPrice p
          then search_by_price_range r min_price max_price results2
          else results2))"

definition find_properties_in_price_range ::
  "RealEstateAnalyzer \<Rightarrow> rat \<Rightarrow> rat \<Rightarrow> Property list" where
  "find_properties_in_price_range self min_price max_price =
     search_by_price_range (price_bst_root self) min_price max_price []"

section \<open>Floating-point arithmetic\<close>

text \<open>
  A Python float is an IEEE 754 double: a finite one is a rational \<open>m * 2 ^ q\<close> with
  \<open>\<bar>m\<bar> < 2 ^ 53\<close> and \<open>- 1074 \<le> q \<le> 971\<close>; the others are the two infinities and
  the not-a-number. An operation returns the exact result rounded to the nearest
  double, ties to the even mantissa, and an infinity from \<open>2 ^ 1024\<close> on.
\<close>

datatype pyfloat = Finite rat | PosInf | NegInf | NaN

text \<open>The number of binary digits of a positive integer.\<close>

function bit_length :: "int \<Rightarrow> int" where
  "bit_length n = (if n \<le> 0 then 0 else 1 + bit_length (n div 2))"
  by pat_completeness auto
termination
  by (relation "measure nat") auto

declare bit_length.simps [simp del]

definition pow2 :: "int \<Rightarrow> rat" where
  "pow2 q = (if 0 \<le> q then 2 ^ nat q else 1 / 2 ^ nat (- q))"

text \<open>For \<open>a > 0\<close>, the exponent \<open>e\<close> with \<open>2 ^ e \<le> a < 2 ^ (e + 1)\<close>.\<close>

definition floor_log2 :: "rat \<Rightarrow> int" where
  "floor_log2 a =
     (if 1 \<le> a then bit_length \<lfloor>a\<rfloor> - 1 else - bit_length (\<lceil>1 / a\<rceil> - 1))"

definition round_half_even :: "rat \<Rightarrow> int" where
  "round_half_even x =
     (let f = \<lfloor>x\<rfloor>; d = x - of_int f
      in if d < 1 / 2 then f else if 1 / 2 < d then f + 1 else if even f then f else f + 1)"

text \<open>
  Rounding to the nearest double: the unit in the last place is \<open>2 ^ q\<close>, 52 binary
  places below the leading digit and never below \<open>2 ^ - 1074\<close>.
\<close>

definition round_double :: "rat \<Rightarrow> pyfloat" where
  "round_double x =
     (if x = 0 then Finite 0
      else let q = max (floor_log2 \<bar>x\<bar> - 52) (- 1074);
               r = of_int (round_half_even (x / pow2 q)) * pow2 q
           in if 2 ^ 1024 \<le> r then PosInf
              else if r \<le> - (2 ^ 1024) then NegInf
              else Finite r)"

text \<open>
  Addition of two floats, and division of a float by a positive \<open>int\<close> (a length of
  a list, which is a double itself).
\<close>

fun float_add :: "pyfloat \<Rightarrow> pyfloat \<Rightarrow> pyfloat" where
  "float_add (Finite a) (Finite b) = round_double (a + b)"
| "float_add NaN y = NaN"
| "float_add x NaN = NaN"
| "float_add PosInf NegInf = NaN"
| "float_add NegInf PosInf = NaN"
| "float_add PosInf y = PosInf"
| "float_add x PosInf = PosInf"
| "float_add NegInf y = NegInf"
| "float_add x NegInf = NegInf"

fun float_div :: "pyfloat \<Rightarrow> nat \<Rightarrow> pyfloat" where
  "float_div (Finite a) n = round_double (a / of_nat n)"
| "float_div x n = x"

section \<open>Aggregations\<close>

text \<open>
  Python's dictionaries keep their keys in the order of first insertion, so a
  dictionary is an association list with distinct keys, in that order.
  \<open>defaultdict_modify dflt k f d\<close> is the effect of \<open>d[k]\<close> on a \<open>defaultdict\<close> followed
  by a mutation \<open>f\<close> of the value found: a missing key is first entered, at the end,
  with the default value.
\<close>

fun defaultdict_modify :: "'v \<Rightarrow> 'k \<Rightarrow> ('v \<Rightarrow> 'v) \<Rightarrow> ('k \<times> 'v) list \<Rightarrow> ('k \<times> 'v) list" where
  "defaultdict_modify dflt k f [] = [(k, f dflt)]"
| "defaultdict_modify dflt k f ((k', v) # d) =
     (if k' = k then (k', f v) # d else (k', v) # defaultdict_modify dflt k f d)"

text \<open>\<open>prices.append(x)\<close>.\<close>

definition list_append :: "'a \<Rightarrow> 'a list \<Rightarrow> 'a list" where
  "list_append x xs = xs @ [x]"

text \<open>
  The builtin \<open>sum\<close> adds from the left, from 0, each addition rounded to the nearest
  float, as CPython does up to version 3.11; later versions add a compensation term,
  which is zero whenever every addition is exact. The sign of a zero is not modelled.
\<close>

definition py_sum :: "rat list \<Rightarrow> pyfloat" where
  "py_sum prices = foldl (\<lambda>acc x. float_add acc (Finite x)) (Finite 0) prices"

datatype py_error = ZeroDivisionError

text \<open>\<open>sum(prices) / len(prices)\<close>: the division raises on an empty list.\<close>

definition mean_price :: "rat list \<Rightarrow> py_error + pyfloat" where
  "mean_price prices =
     (if length prices = 0 then Inl ZeroDivisionError
      else Inr (float_div (py_sum prices) (length prices)))"

text \<open>
  The comprehension \<open>{loc: sum(prices) / len(prices) for loc, prices in d.items()}\<close>:
  the items in order, stopping at the first error.
\<close>

fun average_items :: "('k \<times> rat list) list \<Rightarrow> py_error + ('k \<times> pyfloat) list" where
  "average_items [] = Inr []"
| "average_items ((loc, prices) # d) =
     (case mean_price prices of
        Inl e \<Rightarrow> Inl e
      | Inr m \<Rightarrow> (case average_items d of
                   Inl e \<Rightarrow> Inl e
                 | Inr avg \<Rightarrow> Inr ((loc, m) # avg)))"

text \<open>The body of the loop: \<open>location_prices[prop.city].append(prop.latestPrice)\<close>.\<close>

definition add_price :: "(string \<times> rat list) list \<Rightarrow> Property \<Rightarrow> (string \<times> rat list) list" where
  "add_price location_prices prop =
     defaultdict_modify [] (city prop) (list_append (latestPrice prop)) location_prices"

definition location_prices_of :: "Property list \<Rightarrow> (string \<times> rat list) list" where
  "location_prices_of props = foldl add_price [] props"

definition calculate_average_price_by_location ::
  "RealEstateAnalyzer \<Rightarrow> py_error + (string \<times> pyfloat) list" where
  "calculate_average_price_by_location self =
     average_items (location_prices_of (properties self))"

text \<open>
  \<open>find_trends\<close>: the outer dictionary is keyed by year and defaults to an empty
  inner \<open>defaultdict(list)\<close>; the second loop stores one dictionary of means per year.
\<close>

definition add_yearly_price ::
  "(int \<times> (string \<times> rat list) list) list \<Rightarrow> Property \<Rightarrow> (int \<times> (string \<times> rat list) list) list" where
  "add_yearly_price yearly_location_prices prop =
     defaultdict_modify [] (latest_saleyear prop)
       (defaultdict_modify [] (city prop) (list_append (latestPrice prop)))
       yearly_location_prices"

definition yearly_location_prices_of ::
  "Property list \<Rightarrow> (int \<times> (string \<times> rat list) list) list" where
  "yearly_location_prices_of props = foldl add_yearly_price [] props"

fun trends_items ::
  "(int \<times> (string \<times> rat list) list) list \<Rightarrow> py_error + (int \<times> (string \<times> pyfloat) list) list" where
  "trends_items [] = Inr []"
| "trends_items ((year, locations) # d) =
     (case average_items locations of
        Inl e \<Rightarrow> Inl e
      | Inr avg \<Rightarrow> (case trends_items d of
                     Inl e \<Rightarrow> Inl e
                   | Inr trends \<Rightarrow> Inr ((year, avg) # trends)))"

definition find_trends ::
  "RealEstateAnalyzer \<Rightarrow> py_error + (int \<times> (string \<times> pyfloat) list) list" where
  "find_trends self = trends_items (yearly_location_prices_of (properties self))"

section \<open>The read operations on a store of objects\<close>

text \<open>
  The objects of the program live in a store: the analyzer, the lists of properties
  (\<open>self.properties\<close> and the list \<open>results\<close> of a query) and the nodes of the tree. An
  address is an index into the store; a new object is put at the end. A field that
  holds a node or \<open>None\<close> is an optional address. The properties themselves are never
  assigned to after their construction and stay values.
\<close>

type_synonym addr = nat

datatype object =
    RealEstateAnalyzer_object addr "addr option"
  | list_object "Property list"
  | BSTNode_object Property "addr option" "addr option"

type_synonym store = "object list"

text \<open>
  \<open>results.append(x)\<close>, on the object at the address \<open>l\<close>. \<open>None\<close> is a call that does
  not return: here, the object is not a list.
\<close>

definition append_st :: "addr \<Rightarrow> Property \<Rightarrow> store \<Rightarrow> store option" where
  "append_st l x h =
     (if l < length h
      then (case h ! l of list_object xs \<Rightarrow> Some (h[l := list_object (xs @ [x])]) | _ \<Rightarrow> None)
      else None)"

text \<open>
  \<open>search_by_price_range\<close> on the store. The first argument bounds the depth of the
  recursion, as the recursion limit of the interpreter does; at depth 0 the call does
  not return. The fields of the node are read once: the only write in between is
  the \<open>append\<close>, which replaces a list by a list.
\<close>

fun search_by_price_range_st ::
  "nat \<Rightarrow> addr option \<Rightarrow> rat \<Rightarrow> rat \<Rightarrow> addr \<Rightarrow> store \<Rightarrow> store option" where
  "search_by_price_range_st 0 node min_price max_price results h = None"
| "search_by_price_range_st (Suc n) None min_price max_price results h = Some h"
| "search_by_price_range_st (Suc n) (Some r) min_price max_price results h =
     (if r < length h
      then (case h ! r of
              BSTNode_object p left right \<Rightarrow>
                do {
                  h1 \<leftarrow> (if min_price \<le> latestPrice p \<and> latestPrice p \<le> max_price
                         then append_st results p h else Some h);
                  h2 \<leftarrow> (if min_price < latestPrice p
                         then search_by_price_range_st n left min_price max_price results h1
                         else Some h1);
                  if max_price > latestPrice p
                  then search_by_price_range_st n right min_price max_price results h2
                  else Some h2
                }
            | _ \<Rightarrow> None)
      else None)"

text \<open>
  \<open>find_properties_in_price_range\<close> creates the list \<open>results\<close>, runs the search from
  \<open>self.price_bst_root\<close> and returns the address of the list.
\<close>

definition find_properties_in_price_range_st ::
  "nat \<Rightarrow> addr \<Rightarrow> rat \<Rightarrow> rat \<Rightarrow> store \<Rightarrow> (addr \<times> store) option" where
  "find_properties_in_price_range_st n self min_price max_price h =
     (if self < length h
      then (case h ! self of
              RealEstateAnalyzer_object ps node \<Rightarrow>
                do {
                  let results = length h;
                  let h0 = h @ [list_object []];
                  h' \<leftarrow> search_by_price_range_st n node min_price max_price results h0;
                  Some (results, h')
                }
            | _ \<Rightarrow> None)
      else None)"

text \<open>
  The two aggregations read \<open>self.properties\<close>; their dictionaries are local to the
  call.
\<close>

definition properties_st :: "addr \<Rightarrow> store \<Rightarrow> Property list option" where
  "properties_st self h =
     (if self < length h
      then (case h ! self of
              RealEstateAnalyzer_object ps node \<Rightarrow>
                (if ps < length h
                 then (case h ! ps of list_object props \<Rightarrow> Some props | _ \<Rightarrow> None)
                 else None)
            | _ \<Rightarrow> None)
      else None)"

definition calculate_average_price_by_location_st ::
  "addr \<Rightarrow> store \<Rightarrow> ((py_error + (string \<times> pyfloat) list) \<times> store) option" where
  "calculate_average_price_by_location_st self h =
     do {
       props \<leftarrow> properties_st self h;
       let location_prices = foldl add_price [] props;
       let avg_prices = average_items location_prices;
       Some (avg_prices, h)
     }"

definition find_trends_st ::
  "addr \<Rightarrow> store \<Rightarrow> ((py_error + (int \<times> (string \<times> pyfloat) list) list) \<times> store) option" where
  "find_trends_st self h =
     do {
       props \<leftarrow> properties_st self h;
       let yearly_location_prices = foldl add_yearly_price [] props;
       let trends = trends_items yearly_location_prices;
       Some (trends, h)
     }"

section \<open>Notions used to state the properties\<close>

text \<open>
  The order invariant of the tree, as a computable predicate: \<open>tree_properties\<close>
  lists the properties stored in a subtree.
\<close>

fun tree_properties :: "BSTNode \<Rightarrow> Property list" where
  "tree_properties NoneNode = []"
| "tree_properties (BSTNode p l r) = p # tree_properties l @ tree_properties r"

fun bst_order :: "BSTNode \<Rightarrow> bool" where
  "bst_order NoneNode = True"
| "bst_order (BSTNode p l r) =
     (list_all (\<lambda>q. latestPrice q < latestPrice p) (tree_properties l) \<and>
      list_all (\<lambda>q. latestPrice q \<ge> latestPrice p) (tree_properties r) \<and>
      bst_order l \<and> bst_order r)"

text \<open>A price lies in the closed interval of a query.\<close>

definition in_price_range :: "rat \<Rightarrow> rat \<Rightarrow> Property \<Rightarrow> bool" where
  "in_price_range min_price max_price p =
     (min_price \<le> latestPrice p \<and> latestPrice p \<le> max_price)"








text \<open>
  The analyzer of the scenario, after \<open>load_data\<close>: three listings, whose numbers of
  bedrooms the scenario leaves open.
\<close>

definition scenario :: "int \<Rightarrow> int \<Rightarrow> int \<Rightarrow> RealEstateAnalyzer" where
  "scenario n1 n2 n3 =
     load_data RealEstateAnalyzer_init
       [Property_init ''1'' 100 n1 ''A'' 2020,
        Property_init ''2'' 300 n2 ''B'' 2020,
        Property_init ''3'' 200 n3 ''A'' 2021]"

text \<open>
  The store holds the tree \<open>t\<close> at a link, and the analyzer \<open>s\<close> at an address;
  \<open>depth\<close> is the number of nodes on the longest path of a tree.
\<close>

fun tree_at :: "store \<Rightarrow> addr option \<Rightarrow> BSTNode \<Rightarrow> bool" where
  "tree_at h None NoneNode = True"
| "tree_at h (Some r) (BSTNode p lt rt) =
     (r < length h \<and>
      (case h ! r of
         BSTNode_object q left right \<Rightarrow> q = p \<and> tree_at h left lt \<and> tree_at h right rt
       | _ \<Rightarrow> False))"
| "tree_at h None (BSTNode p lt rt) = False"
| "tree_at h (Some r) NoneNode = False"

fun depth :: "BSTNode \<Rightarrow> nat" where
  "depth NoneNode = 0"
| "depth (BSTNode p l r) = Suc (max (depth l) (depth r))"

definition analyzer_at :: "store \<Rightarrow> addr \<Rightarrow> RealEstateAnalyzer \<Rightarrow> bool" where
  "analyzer_at h self s =
     (self < length h \<and>
      (case h ! self of
         RealEstateAnalyzer_object ps node \<Rightarrow>
           ps < length h \<and> h ! ps = list_object (properties s) \<and>
           tree_at h node (price_bst_root s)
       | _ \<Rightarrow> False))"

definition scenario_store :: "store" where
  "scenario_store =
     [RealEstateAnalyzer_object 1 (Some 2),
      list_object [Property_init ''1'' 100 3 ''A'' 2020,
                   Property_init ''2'' 300 2 ''B'' 2020,
                   Property_init ''3'' 200 4 ''A'' 2021],
      BSTNode_object (Property_init ''1'' 100 3 ''A'' 2020) None (Some 3),
      BSTNode_object (Property_init ''2'' 300 2 ''B'' 2020) (Some 4) None,
      BSTNode_object (Property_init ''3'' 200 4 ''A'' 2021) None None]"

section \<open>Properties of insertion\<close>

lemma set_tree_properties_insert_bst:
  "set (tree_properties (insert_bst t x)) = insert x (set (tree_properties t))"
  by (induction t) auto

lemma bst_order_insert_bst: "bst_order t \<Longrightarrow> bst_order (insert_bst t x)"
  by (induction t) (auto simp: list_all_iff set_tree_properties_insert_bst)

lemma bst_order_foldl_insert_bst:
  "bst_order t \<Longrightarrow> bst_order (foldl insert_bst t xs)"
  by (induction xs arbitrary: t) (simp_all add: bst_order_insert_bst)

lemma mset_tree_properties_insert_bst:
  "mset (tree_properties (insert_bst t x)) = add_mset x (mset (tree_properties t))"
  by (induction t) auto

lemma mset_tree_properties_foldl:
  "mset (tree_properties (foldl insert_bst t xs)) = mset (tree_properties t) + mset xs"
  by (induction xs arbitrary: t) (simp_all add: mset_tree_properties_insert_bst)


section \<open>Properties of the range search\<close>

lemma search_by_price_range_append:
  "search_by_price_range t a b (xs @ ys) = xs @ search_by_price_range t a b ys"
  by (induction t arbitrary: ys a b) (simp_all add: Let_def)

lemma search_by_price_range_results:
  "search_by_price_range t a b results = results @ search_by_price_range t a b []"
  using search_by_price_range_append [of t a b results "[]"] by simp

lemma search_by_price_range_Cons:
  "search_by_price_range t a b (x # ys) = x # search_by_price_range t a b ys"
  using search_by_price_range_append [of t a b "[x]" ys] by simp

lemma search_by_price_range_nested:
  "search_by_price_range r a b (search_by_price_range l a' b' ys) =
     search_by_price_range l a' b' ys @ search_by_price_range r a b []"
  by (rule search_by_price_range_results)

lemma search_by_price_range_node:
  "search_by_price_range (BSTNode p l r) a b [] =
     (if in_price_range a b p then [p] else []) @
     (if a < latestPrice p then search_by_price_range l a b [] else []) @
     (if latestPrice p < b then search_by_price_range r a b [] else [])"
  by (simp add: Let_def in_price_range_def search_by_price_range_Cons
        search_by_price_range_nested)

lemma search_inverted:
  "b < a \<Longrightarrow> search_by_price_range t a b results = results"
  by (induction t arbitrary: results) (auto simp: Let_def)

lemma subseq_search:
  "subseq (search_by_price_range t a b []) (tree_properties t)"
proof (induction t)
  case NoneNode
  show ?case by simp
next
  case (BSTNode p l r)
  have 1: "subseq (if in_price_range a b p then [p] else []) [p]"
    by simp
  have 2: "subseq (if a < latestPrice p then search_by_price_range l a b [] else [])
             (tree_properties l)"
    using BSTNode.IH(1) by simp
  have 3: "subseq (if latestPrice p < b then search_by_price_range r a b [] else [])
             (tree_properties r)"
    using BSTNode.IH(2) by simp
  have "subseq (search_by_price_range (BSTNode p l r) a b [])
          ([p] @ tree_properties l @ tree_properties r)"
    unfolding search_by_price_range_node
    by (intro list_emb_append_mono 1 2 3)
  then show ?case by simp
qed

lemma search_in_range:
  "x \<in> set (search_by_price_range t a b []) \<Longrightarrow> in_price_range a b x"
proof (induction t)
  case NoneNode
  then show ?case by simp
next
  case (BSTNode p l r)
  then show ?case
    unfolding search_by_price_range_node by (auto split: if_splits)
qed

lemma search_distinct_prices:
  "bst_order t \<Longrightarrow> distinct (map latestPrice (tree_properties t)) \<Longrightarrow>
   search_by_price_range t a b [] = filter (in_price_range a b) (tree_properties t)"
proof (induction t)
  case NoneNode
  show ?case by simp
next
  case (BSTNode p l r)
  have l: "search_by_price_range l a b [] = filter (in_price_range a b) (tree_properties l)"
    using BSTNode by simp
  have r: "search_by_price_range r a b [] = filter (in_price_range a b) (tree_properties r)"
    using BSTNode by simp
  have lo: "\<not> a < latestPrice p \<Longrightarrow> filter (in_price_range a b) (tree_properties l) = []"
    using BSTNode.prems(1) by (auto simp: filter_empty_conv list_all_iff in_price_range_def)
  have above: "latestPrice p < latestPrice q" if "q \<in> set (tree_properties r)" for q
  proof -
    have "latestPrice p \<le> latestPrice q"
      using BSTNode.prems(1) that by (simp add: list_all_iff)
    moreover have "latestPrice p \<noteq> latestPrice q"
      using BSTNode.prems(2) that by auto
    ultimately show ?thesis by simp
  qed
  have hi: "\<not> latestPrice p < b \<Longrightarrow> filter (in_price_range a b) (tree_properties r) = []"
    using above by (fastforce simp: filter_empty_conv in_price_range_def)
  show ?case
    unfolding search_by_price_range_node tree_properties.simps
    using lo hi by (simp add: l r)
qed

section \<open>Properties of the aggregations\<close>

lemma floor_rat_numeral_div:
  "\<lfloor>(numeral a :: rat) / numeral b\<rfloor> = numeral a div numeral b"
  using floor_divide_of_int_eq [of "numeral a" "numeral b", where ?'a = rat] by simp

lemma ceiling_rat_numeral_div:
  "\<lceil>(numeral a :: rat) / numeral b\<rceil> = - (- numeral a div numeral b)"
  using ceiling_divide_eq_div [of "numeral a" "numeral b"]
  by (metis ceiling_def floor_divide_of_int_eq minus_divide_left of_int_minus of_int_numeral)

lemmas round_double_eval =
  round_double_def floor_log2_def bit_length.simps pow2_def round_half_even_def Let_def
  floor_rat_numeral_div ceiling_rat_numeral_div























section \<open>Properties of the operations on the store\<close>

lemma list_update_same: "h ! l = x \<Longrightarrow> h[l := x] = h"
  using list_update_id [of h l] by simp

lemma tree_at_update_list:
  "tree_at h node t \<Longrightarrow> l < length h \<Longrightarrow> h ! l = list_object xs \<Longrightarrow>
   tree_at (h[l := list_object ys]) node t"
proof (induction h node t rule: tree_at.induct)
  case (2 h r p lt rt)
  then show ?case
    by (cases "r = l") (auto split: object.splits)
qed simp_all

lemma search_by_price_range_st_refines:
  "tree_at h node t \<Longrightarrow> results < length h \<Longrightarrow> h ! results = list_object rs \<Longrightarrow>
   depth t < n \<Longrightarrow>
   search_by_price_range_st n node a b results h
     = Some (h[results := list_object (search_by_price_range t a b rs)])"
proof (induction t arbitrary: h node rs n)
  case NoneNode
  then obtain m where "n = Suc m" by (cases n) auto
  moreover have "node = None" using NoneNode.prems(1) by (cases node) auto
  ultimately show ?case using NoneNode.prems by (simp add: list_update_same)
next
  case (BSTNode p lt rt)
  then obtain m where n: "n = Suc m" and ml: "depth lt < m" and mr: "depth rt < m"
    by (cases n) auto
  from BSTNode.prems(1) obtain r left right where
    node: "node = Some r" and r: "r < length h" and
    obj: "h ! r = BSTNode_object p left right" and
    tl: "tree_at h left lt" and tr: "tree_at h right rt"
    by (cases node) (auto split: object.splits)
  define rs1 where "rs1 = (if a \<le> latestPrice p \<and> latestPrice p \<le> b then rs @ [p] else rs)"
  define h1 where "h1 = h[results := list_object rs1]"
  have s1: "(if a \<le> latestPrice p \<and> latestPrice p \<le> b then append_st results p h else Some h)
              = Some h1"
    using BSTNode.prems(2,3) by (simp add: append_st_def h1_def rs1_def list_update_same)
  have len1: "results < length h1" and at1: "h1 ! results = list_object rs1"
    using BSTNode.prems(2) by (simp_all add: h1_def)
  have tl1: "tree_at h1 left lt" and tr1: "tree_at h1 right rt"
    unfolding h1_def using tl tr BSTNode.prems(2,3) by (auto intro: tree_at_update_list)
  define rs2 where "rs2 = (if a < latestPrice p then search_by_price_range lt a b rs1 else rs1)"
  define h2 where "h2 = h[results := list_object rs2]"
  have s2: "(if a < latestPrice p then search_by_price_range_st m left a b results h1 else Some h1)
              = Some h2"
    using BSTNode.IH(1) [OF tl1 len1 at1 ml]
    by (simp add: h1_def h2_def rs2_def)
  have len2: "results < length h2" and at2: "h2 ! results = list_object rs2"
    using BSTNode.prems(2) by (simp_all add: h2_def)
  have tr2: "tree_at h2 right rt"
    unfolding h2_def using tr BSTNode.prems(2,3) by (auto intro: tree_at_update_list)
  have s3: "(if b > latestPrice p then search_by_price_range_st m right a b results h2 else Some h2)
              = Some (h[results := list_object
                   (if b > latestPrice p then search_by_price_range rt a b rs2 else rs2)])"
    using BSTNode.IH(2) [OF tr2 len2 at2 mr]
    by (simp add: h2_def)
  show ?case
    unfolding n node
    using r obj s1 s2 s3
    by (simp add: Let_def rs1_def rs2_def)
qed


lemma append_st_frame:
  "append_st l x h = Some h' \<Longrightarrow>
   length h' = length h \<and> (\<forall>y. y \<noteq> l \<longrightarrow> h' ! y = h ! y)"
  by (auto simp: append_st_def split: if_splits object.splits)

lemma search_by_price_range_st_frame:
  "search_by_price_range_st n node a b results h = Some h' \<Longrightarrow>
   length h' = length h \<and> (\<forall>y. y \<noteq> results \<longrightarrow> h' ! y = h ! y)"
proof (induction n arbitrary: node h h')
  case 0
  then show ?case by simp
next
  case (Suc n)
  show ?case
  proof (cases node)
    case None
    with Suc.prems show ?thesis by simp
  next
    case (Some r)
    from Suc.prems Some obtain p left right where
      r: "r < length h" and obj: "h ! r = BSTNode_object p left right"
      by (auto split: if_splits object.splits)
    from Suc.prems have
      "do {
         h1 \<leftarrow> (if a \<le> latestPrice p \<and> latestPrice p \<le> b
                then append_st results p h else Some h);
         h2 \<leftarrow> (if a < latestPrice p
                then search_by_price_range_st n left a b results h1 else Some h1);
         if b > latestPrice p
         then search_by_price_range_st n right a b results h2 else Some h2
       } = Some h'"
      unfolding Some using r obj by simp
    then obtain h1 h2 where
      s1: "(if a \<le> latestPrice p \<and> latestPrice p \<le> b then append_st results p h else Some h)
             = Some h1" and
      s2: "(if a < latestPrice p then search_by_price_range_st n left a b results h1 else Some h1)
             = Some h2" and
      s3: "(if b > latestPrice p then search_by_price_range_st n right a b results h2 else Some h2)
             = Some h'"
      unfolding bind_eq_Some_conv by blast
    have f1: "length h1 = length h \<and> (\<forall>y. y \<noteq> results \<longrightarrow> h1 ! y = h ! y)"
      using s1 append_st_frame by (auto split: if_splits)
    have f2: "length h2 = length h1 \<and> (\<forall>y. y \<noteq> results \<longrightarrow> h2 ! y = h1 ! y)"
      using s2 Suc.IH by (auto split: if_splits)
    have f3: "length h' = length h2 \<and> (\<forall>y. y \<noteq> results \<longrightarrow> h' ! y = h2 ! y)"
      using s3 Suc.IH by (auto split: if_splits)
    show ?thesis using f1 f2 f3 by simp
  qed
qed

lemma tree_at_append: "tree_at h node t \<Longrightarrow> tree_at (h @ [x]) node t"
proof (induction h node t rule: tree_at.induct)
  case (2 h r p lt rt)
  then show ?case
    by (auto simp: nth_append split: object.splits)
qed simp_all

section \<open>The claims\<close>

lemmas scenario_defs =
  scenario_def Property_init_def load_data_def RealEstateAnalyzer_init_def
  build_price_bst_def find_properties_in_price_range_def in_price_range_def

lemmas aggregation_defs =
  calculate_average_price_by_location_def find_trends_def
  location_prices_of_def yearly_location_prices_of_def add_price_def
  add_yearly_price_def list_append_def mean_price_def py_sum_def

subsection \<open>C1: the range query returns every listing in range\<close>

text \<open>
  C1 asks that the range query on the built tree returns exactly the sub-multiset of
  the listings whose price lies in the interval. \<open>insert_bst\<close> sends a listing whose
  price equals the price of a node into the right subtree, and
  \<open>search_by_price_range\<close> enters the right subtree only when
  \<open>max_price > root.property.latestPrice\<close>: of two listings at the price 100, the
  query for the interval from 50 to 100 returns the first and omits the second, which
  is in range.
\<close>

theorem range_query_omits_equal_price_at_max:
  "find_properties_in_price_range
     (build_price_bst (load_data RealEstateAnalyzer_init
        [Property_init ''1'' 100 3 ''A'' 2020, Property_init ''2'' 100 2 ''A'' 2021]))
     50 100
   = [Property_init ''1'' 100 3 ''A'' 2020]
   \<and> filter (in_price_range 50 100)
       [Property_init ''1'' 100 3 ''A'' 2020, Property_init ''2'' 100 2 ''A'' 2021]
     = [Property_init ''1'' 100 3 ''A'' 2020, Property_init ''2'' 100 2 ''A'' 2021]"
  by (simp add: scenario_defs)

subsection \<open>C2: the order of the result\<close>

text \<open>
  C2 as stated (the result is non-decreasing by price) fails on the scenario of the
  specification: the query for the interval from 150 to 300 returns the listing at
  300 before the listing at 200.
\<close>

theorem range_query_not_ascending:
  "\<not> sorted (map latestPrice
        (find_properties_in_price_range (build_price_bst (scenario 3 2 4)) 150 300))"
  by (simp add: scenario_defs)

text \<open>
  C2, amended: the result of the range query on the built tree lists listings of the
  interval in the pre-order of the tree: it is a subsequence of the sequence that
  names each node before the nodes of its left subtree, and those before the nodes
  of its right subtree.
\<close>

theorem range_query_in_preorder:
  "subseq (find_properties_in_price_range (build_price_bst self) a b)
          (tree_properties (price_bst_root (build_price_bst self)))
   \<and> list_all (in_price_range a b) (find_properties_in_price_range (build_price_bst self) a b)"
  by (simp add: find_properties_in_price_range_def subseq_search list_all_iff search_in_range)

subsection \<open>C3: a query before the tree is built\<close>

text \<open>
  C3 as stated (a query before the build fails with a NotIndexed condition) fails:
  after \<open>load_data\<close> alone the root is still \<open>None\<close>, and the query returns the empty
  list although a listing is in range.
\<close>

theorem query_before_build_returns_empty:
  "find_properties_in_price_range
     (load_data RealEstateAnalyzer_init [Property_init ''1'' 100 3 ''A'' 2020]) 0 1000 = []"
  by (simp add: scenario_defs)

text \<open>
  C3, amended: while the root is \<open>None\<close>, as it is from the constructor until
  \<open>build_price_bst\<close> runs, the range query returns the empty list, for all bounds
  and whatever listings are loaded; it signals nothing.
\<close>

theorem query_without_tree_is_empty:
  "price_bst_root self = NoneNode \<Longrightarrow> find_properties_in_price_range self a b = []"
  by (simp add: find_properties_in_price_range_def)

theorem query_without_tree_is_empty_witness:
  "price_bst_root (load_data RealEstateAnalyzer_init [Property_init ''1'' 100 3 ''A'' 2020])
     = NoneNode
   \<and> find_properties_in_price_range
       (load_data RealEstateAnalyzer_init [Property_init ''1'' 100 3 ''A'' 2020]) 50 150 = []"
  using query_without_tree_is_empty
    [of "load_data RealEstateAnalyzer_init [Property_init ''1'' 100 3 ''A'' 2020]" 50 150]
  by (simp add: load_data_def RealEstateAnalyzer_init_def)

subsection \<open>C4: the order invariant\<close>

text \<open>
  C4: the tree that \<open>build_price_bst\<close> produces satisfies the order invariant (at every
  node, the prices of the left subtree are strictly below the price of the node, and
  the prices of the right subtree are at or above it), and \<open>insert_bst\<close> preserves the
  invariant.
\<close>

theorem build_and_insert_keep_bst_order:
  "bst_order (price_bst_root (build_price_bst self))
   \<and> (bst_order t \<longrightarrow> bst_order (insert_bst t x))"
  by (simp add: build_price_bst_def bst_order_foldl_insert_bst bst_order_insert_bst)

theorem build_and_insert_keep_bst_order_witness:
  "bst_order (price_bst_root (build_price_bst (scenario 3 2 4)))
   \<and> bst_order (BSTNode (Property_init ''1'' 100 3 ''A'' 2020) NoneNode NoneNode)
   \<and> bst_order (insert_bst (BSTNode (Property_init ''1'' 100 3 ''A'' 2020) NoneNode NoneNode)
        (Property_init ''2'' 100 2 ''B'' 2020))"
  using build_and_insert_keep_bst_order
    [of "scenario 3 2 4" "BSTNode (Property_init ''1'' 100 3 ''A'' 2020) NoneNode NoneNode"
        "Property_init ''2'' 100 2 ''B'' 2020"]
  by simp

subsection \<open>C5: the scenario\<close>

text \<open>
  C5 as stated fails in the order of the query result: the query for the interval
  from 150 to 300 does not return the listing 3 followed by the listing 2.
\<close>

theorem scenario_query_order_differs:
  "find_properties_in_price_range (build_price_bst (scenario 3 2 4)) 150 300
     \<noteq> [Property_init ''3'' 200 4 ''A'' 2021, Property_init ''2'' 300 2 ''B'' 2020]"
  by (simp add: scenario_defs)

text \<open>
  C5, amended: on the three listings of the scenario, after the build, the query for
  the interval from 150 to 300 returns the listing 2 followed by the listing 3; the
  averages by location are 150 for A and 300 for B; the trends are, for 2020, 100 for
  A and 300 for B and, for 2021, 200 for A, with no entry for B under 2021.
\<close>

theorem scenario_results:
  "find_properties_in_price_range (build_price_bst (scenario n1 n2 n3)) 150 300
     = [Property_init ''2'' 300 n2 ''B'' 2020, Property_init ''3'' 200 n3 ''A'' 2021]
   \<and> calculate_average_price_by_location (build_price_bst (scenario n1 n2 n3))
     = Inr [(''A'', Finite 150), (''B'', Finite 300)]
   \<and> find_trends (build_price_bst (scenario n1 n2 n3))
     = Inr [(2020, [(''A'', Finite 100), (''B'', Finite 300)]), (2021, [(''A'', Finite 200)])]"
  by (simp add: scenario_defs aggregation_defs round_double_eval)

subsection \<open>C6: the average by location\<close>




subsection \<open>C7: building twice\<close>

text \<open>
  C7: \<open>build_price_bst\<close> run twice in succession leaves the analyzer as one run does,
  so every range query answers the same; the tree that was there before a build has
  no effect on its result.
\<close>

theorem build_twice_is_build_once:
  "build_price_bst (build_price_bst self) = build_price_bst self
   \<and> build_price_bst (self\<lparr>price_bst_root := t\<rparr>) = build_price_bst self
   \<and> find_properties_in_price_range (build_price_bst (build_price_bst self)) a b
     = find_properties_in_price_range (build_price_bst self) a b"
  by (simp add: build_price_bst_def)

subsection \<open>C8: inverted bounds and the empty tree\<close>

text \<open>
  C8: with \<open>min_price > max_price\<close> the range query on a built tree returns the empty
  list; the search on the empty tree, and the range query after a build over no
  listings, return the empty list.
\<close>

theorem inverted_bounds_and_empty_tree_give_empty:
  "(max_price < min_price \<longrightarrow>
      find_properties_in_price_range (build_price_bst self) min_price max_price = [])
   \<and> search_by_price_range NoneNode min_price max_price [] = []
   \<and> find_properties_in_price_range
       (build_price_bst (self\<lparr>properties := []\<rparr>)) min_price max_price = []"
  by (simp add: find_properties_in_price_range_def search_inverted build_price_bst_def)

theorem inverted_bounds_and_empty_tree_give_empty_witness:
  "(100::rat) < 300
   \<and> find_properties_in_price_range (build_price_bst (scenario 3 2 4)) 300 100 = []
   \<and> find_properties_in_price_range
       (build_price_bst ((scenario 3 2 4)\<lparr>properties := []\<rparr>)) 300 100 = []"
  using inverted_bounds_and_empty_tree_give_empty [of 100 300 "scenario 3 2 4"]
  by simp

subsection \<open>C9: the read operations change nothing\<close>

text \<open>
  C9: in a store that holds the analyzer, its list of listings and its tree, the range
  query (given a recursion depth above the depth of the tree) returns a new list, put
  at the end of the store, with the result of \<open>find_properties_in_price_range\<close>, and the
  two aggregations return the results of \<open>calculate_average_price_by_location\<close> and
  \<open>find_trends\<close>; after each of them every object that was in the store before the
  call, the analyzer, the list of listings and every node with its property and its
  two links, is as it was.
\<close>

theorem read_operations_leave_store_unchanged:
  assumes "analyzer_at h self s" and "depth (price_bst_root s) < n"
  shows "find_properties_in_price_range_st n self a b h
           = Some (length h, h @ [list_object (find_properties_in_price_range s a b)])
         \<and> calculate_average_price_by_location_st self h
           = Some (calculate_average_price_by_location s, h)
         \<and> find_trends_st self h = Some (find_trends s, h)
         \<and> analyzer_at (h @ [list_object (find_properties_in_price_range s a b)]) self s"
proof -
  from assms(1) obtain ps node where
    self: "self < length h" and obj: "h ! self = RealEstateAnalyzer_object ps node" and
    ps: "ps < length h" and props: "h ! ps = list_object (properties s)" and
    t: "tree_at h node (price_bst_root s)"
    by (auto simp: analyzer_at_def split: object.splits)
  let ?h0 = "h @ [list_object []]"
  have "search_by_price_range_st n node a b (length h) ?h0
          = Some (?h0[length h := list_object (search_by_price_range (price_bst_root s) a b [])])"
    by (rule search_by_price_range_st_refines [OF tree_at_append [OF t] _ _ assms(2)]) simp_all
  then have 1: "find_properties_in_price_range_st n self a b h
           = Some (length h, h @ [list_object (find_properties_in_price_range s a b)])"
    using self obj
    by (simp add: find_properties_in_price_range_st_def find_properties_in_price_range_def)
  have p: "properties_st self h = Some (properties s)"
    using self obj ps props by (simp add: properties_st_def)
  have 2: "calculate_average_price_by_location_st self h
           = Some (calculate_average_price_by_location s, h)"
    by (simp add: calculate_average_price_by_location_st_def p
          calculate_average_price_by_location_def location_prices_of_def)
  have 3: "find_trends_st self h = Some (find_trends s, h)"
    by (simp add: find_trends_st_def p find_trends_def yearly_location_prices_of_def)
  have 4: "analyzer_at (h @ [list_object (find_properties_in_price_range s a b)]) self s"
    using self obj ps props t
    by (simp add: analyzer_at_def nth_append tree_at_append)
  show ?thesis using 1 2 3 4 by simp
qed

theorem read_operations_leave_store_unchanged_witness:
  "analyzer_at scenario_store 0 (build_price_bst (scenario 3 2 4))
   \<and> depth (price_bst_root (build_price_bst (scenario 3 2 4))) < 4
   \<and> find_properties_in_price_range_st 4 0 150 300 scenario_store
       = Some (5, scenario_store @
           [list_object [Property_init ''2'' 300 2 ''B'' 2020, Property_init ''3'' 200 4 ''A'' 2021]])
   \<and> calculate_average_price_by_location_st 0 scenario_store
       = Some (Inr [(''A'', Finite 150), (''B'', Finite 300)], scenario_store)
   \<and> find_trends_st 0 scenario_store
       = Some (Inr [(2020, [(''A'', Finite 100), (''B'', Finite 300)]),
                    (2021, [(''A'', Finite 200)])], scenario_store)"
proof -
  have a: "analyzer_at scenario_store 0 (build_price_bst (scenario 3 2 4))"
    by (simp add: analyzer_at_def scenario_store_def scenario_defs)
  have d: "depth (price_bst_root (build_price_bst (scenario 3 2 4))) < 4"
    by (simp add: scenario_defs)
  have l: "length scenario_store = 5"
    by (simp add: scenario_store_def)
  have q: "find_properties_in_price_range (build_price_bst (scenario 3 2 4)) 150 300
       = [Property_init ''2'' 300 2 ''B'' 2020, Property_init ''3'' 200 4 ''A'' 2021]"
    by (simp add: scenario_defs)
  have v: "calculate_average_price_by_location (build_price_bst (scenario 3 2 4))
       = Inr [(''A'', Finite 150), (''B'', Finite 300)]"
    by (simp add: scenario_defs aggregation_defs round_double_eval)
  have w: "find_trends (build_price_bst (scenario 3 2 4))
       = Inr [(2020, [(''A'', Finite 100), (''B'', Finite 300)]), (2021, [(''A'', Finite 200)])]"
    by (simp add: scenario_defs aggregation_defs round_double_eval)
  show ?thesis
    using a d read_operations_leave_store_unchanged [OF a d, of 150 300]
    by (simp add: l q v w)
qed

subsection \<open>C10: distinct prices\<close>

text \<open>
  C10: when the prices of the listings are pairwise distinct, the range query on the
  built tree returns exactly the listings whose price lies in the interval, each
  once. The bounds need not be ordered for this.
\<close>

theorem range_query_exact_on_distinct_prices:
  assumes "distinct (map latestPrice (properties self))"
  shows "mset (find_properties_in_price_range (build_price_bst self) a b)
           = filter_mset (in_price_range a b) (mset (properties self))
         \<and> distinct (find_properties_in_price_range (build_price_bst self) a b)"
proof -
  let ?t = "foldl insert_bst NoneNode (properties self)"
  have m: "mset (tree_properties ?t) = mset (properties self)"
    by (simp add: mset_tree_properties_foldl)
  have "mset (map latestPrice (tree_properties ?t)) = mset (map latestPrice (properties self))"
    using m by (metis mset_map)
  then have d: "distinct (map latestPrice (tree_properties ?t))"
    using assms by (metis mset_eq_imp_distinct_iff)
  have o: "bst_order ?t"
    by (simp add: bst_order_foldl_insert_bst)
  have e: "find_properties_in_price_range (build_price_bst self) a b
             = filter (in_price_range a b) (tree_properties ?t)"
    by (simp add: find_properties_in_price_range_def build_price_bst_def
          search_distinct_prices [OF o d])
  have "distinct (tree_properties ?t)"
    using d by (simp add: distinct_map)
  then show ?thesis
    by (simp add: e m)
qed

theorem range_query_exact_on_distinct_prices_witness:
  "distinct (map latestPrice (properties (scenario 3 2 4)))
   \<and> mset (find_properties_in_price_range (build_price_bst (scenario 3 2 4)) 150 300)
       = {#Property_init ''2'' 300 2 ''B'' 2020, Property_init ''3'' 200 4 ''A'' 2021#}
   \<and> distinct (find_properties_in_price_range (build_price_bst (scenario 3 2 4)) 150 300)"
  using range_query_exact_on_distinct_prices [of "scenario 3 2 4" 150 300]
  by (simp add: scenario_def Property_init_def load_data_def RealEstateAnalyzer_init_def
        in_price_range_def)

end
